theory Spec2Isabelle
  imports Complex_Main
begin

section \<open>Dates of the JavaScript platform\<close>

text \<open>
  \<^verbatim>\<open>formatDate\<close> builds a \<^verbatim>\<open>Date\<close> from a string and reads its local calendar
  fields. The \<^verbatim>\<open>Date\<close> object belongs to the JavaScript engine, not to the
  repository; it is modelled after the ECMAScript language specification (section
  "Date Objects"). A time value is a number of milliseconds since 1970-01-01T00:00:00Z,
  here an \<open>int\<close>; the time value of an invalid date is \<^verbatim>\<open>NaN\<close>, here \<open>None\<close>.
\<close>

definition msPerDay :: int where "msPerDay = 86400000"
definition msPerHour :: int where "msPerHour = 3600000"
definition msPerMinute :: int where "msPerMinute = 60000"
definition msPerSecond :: int where "msPerSecond = 1000"

definition Day :: "int \<Rightarrow> int" where "Day t = t div msPerDay"

definition DaysInYear :: "int \<Rightarrow> int" where
  "DaysInYear y =
     (if y mod 4 \<noteq> 0 then 365 else if y mod 100 \<noteq> 0 then 366
      else if y mod 400 \<noteq> 0 then 365 else 366)"

definition DayFromYear :: "int \<Rightarrow> int" where
  "DayFromYear y =
     365 * (y - 1970) + (y - 1969) div 4 - (y - 1901) div 100 + (y - 1601) div 400"

definition TimeFromYear :: "int \<Rightarrow> int" where
  "TimeFromYear y = msPerDay * DayFromYear y"

text \<open>
  ECMAScript defines \<^verbatim>\<open>YearFromTime(t)\<close> as the largest year \<open>y\<close> with
  \<open>TimeFromYear y \<le> t\<close>. The definition below computes it: an estimate from the mean
  length of a Gregorian year, moved by one year when it misses. Lemmas
  \<open>YearFromTime_le\<close> and \<open>YearFromTime_largest\<close> show that it is that year.
\<close>

definition YearFromTime :: "int \<Rightarrow> int" where
  "YearFromTime t =
     (let d = Day t; y = 1970 + (400 * d) div 146097
      in if d < DayFromYear y then y - 1
         else if DayFromYear (y + 1) \<le> d then y + 1 else y)"

definition InLeapYear :: "int \<Rightarrow> int" where
  "InLeapYear t = (if DaysInYear (YearFromTime t) = 365 then 0 else 1)"

definition DayWithinYear :: "int \<Rightarrow> int" where
  "DayWithinYear t = Day t - DayFromYear (YearFromTime t)"

definition MonthFromTime :: "int \<Rightarrow> int" where
  "MonthFromTime t =
     (let d = DayWithinYear t; l = InLeapYear t
      in if d < 31 then 0 else if d < 59 + l then 1 else if d < 90 + l then 2
         else if d < 120 + l then 3 else if d < 151 + l then 4
         else if d < 181 + l then 5 else if d < 212 + l then 6
         else if d < 243 + l then 7 else if d < 273 + l then 8
         else if d < 304 + l then 9 else if d < 334 + l then 10 else 11)"

definition DateFromTime :: "int \<Rightarrow> int" where
  "DateFromTime t =
     (let d = DayWithinYear t; l = InLeapYear t; m = MonthFromTime t
      in if m = 0 then d + 1 else if m = 1 then d - 30
         else if m = 2 then d - 58 - l else if m = 3 then d - 89 - l
         else if m = 4 then d - 119 - l else if m = 5 then d - 150 - l
         else if m = 6 then d - 180 - l else if m = 7 then d - 211 - l
         else if m = 8 then d - 242 - l else if m = 9 then d - 272 - l
         else if m = 10 then d - 303 - l else d - 333 - l)"

subsection \<open>Building a time value\<close>

text \<open>
  \<open>monthStart l m\<close> is the day within the year on which month \<open>m\<close> (0 to 11) starts,
  \<open>l\<close> being 1 in a leap year: the thresholds of \<^verbatim>\<open>MonthFromTime\<close>. \<open>MakeDay\<close> is
  the day number of a calendar date (lemma \<open>MakeDay_first\<close> relates it to
  ECMAScript's wording).
\<close>

definition monthStart :: "int \<Rightarrow> int \<Rightarrow> int" where
  "monthStart l m =
     (if m = 0 then 0 else if m = 1 then 31 else if m = 2 then 59 + l
      else if m = 3 then 90 + l else if m = 4 then 120 + l else if m = 5 then 151 + l
      else if m = 6 then 181 + l else if m = 7 then 212 + l else if m = 8 then 243 + l
      else if m = 9 then 273 + l else if m = 10 then 304 + l else if m = 11 then 334 + l
      else 365 + l)"

definition leap :: "int \<Rightarrow> int" where
  "leap y = (if DaysInYear y = 365 then 0 else 1)"

definition DaysInMonth :: "int \<Rightarrow> int \<Rightarrow> int" where
  "DaysInMonth y m = monthStart (leap y) (m + 1) - monthStart (leap y) m"

definition MakeDay :: "int \<Rightarrow> int \<Rightarrow> int \<Rightarrow> int" where
  "MakeDay year month dt =
     (let ym = year + month div 12; mn = month mod 12
      in DayFromYear ym + monthStart (leap ym) mn + dt - 1)"

definition MakeTime :: "int \<Rightarrow> int \<Rightarrow> int \<Rightarrow> int \<Rightarrow> int" where
  "MakeTime hour minute sec ms = hour * msPerHour + minute * msPerMinute + sec * msPerSecond + ms"

definition MakeDate :: "int \<Rightarrow> int \<Rightarrow> int" where
  "MakeDate day tm = day * msPerDay + tm"

definition TimeClip :: "int \<Rightarrow> int option" where
  "TimeClip t = (if 8640000000000000 < \<bar>t\<bar> then None else Some t)"

subsection \<open>The date-time string format\<close>

text \<open>
  \<^verbatim>\<open>new Date(string)\<close> parses like \<^verbatim>\<open>Date.parse\<close>. ECMAScript fixes the result for
  strings of the format \<^verbatim>\<open>YYYY-MM-DDTHH:mm:ss.sssZ\<close>: the date-only forms
  \<^verbatim>\<open>YYYY\<close>, \<^verbatim>\<open>YYYY-MM\<close>, \<^verbatim>\<open>YYYY-MM-DD\<close> (the year also as a sign and six
  digits), each alone or followed by \<^verbatim>\<open>T\<close> and \<^verbatim>\<open>HH:mm\<close>, \<^verbatim>\<open>HH:mm:ss\<close> or
  \<^verbatim>\<open>HH:mm:ss.sss\<close>, then an optional \<^verbatim>\<open>Z\<close> or \<^verbatim>\<open>+HH:mm\<close>/\<^verbatim>\<open>-HH:mm\<close>. Without
  an offset a date-only form is a UTC time and a date-time form is a local time. For any
  other string an engine may fall back to heuristics of its own.

  The readers below take a fixed number of decimal digits or one separator from the
  front of a string and return what is left.
\<close>

definition digit_of :: "char \<Rightarrow> nat option" where
  "digit_of c = map_of (zip ''0123456789'' [0, 1, 2, 3, 4, 5, 6, 7, 8, 9]) c"

fun decimal :: "nat \<Rightarrow> string \<Rightarrow> nat option" where
  "decimal acc [] = Some acc"
| "decimal acc (c # cs) =
     (case digit_of c of None \<Rightarrow> None | Some v \<Rightarrow> decimal (10 * acc + v) cs)"

definition read_digits :: "nat \<Rightarrow> string \<Rightarrow> (int \<times> string) option" where
  "read_digits k s =
     (if length s < k then None
      else case decimal 0 (take k s) of None \<Rightarrow> None | Some n \<Rightarrow> Some (int n, drop k s))"

definition read_char :: "char \<Rightarrow> string \<Rightarrow> string option" where
  "read_char c s = (case s of [] \<Rightarrow> None | x # r \<Rightarrow> if x = c then Some r else None)"

definition read_field :: "char \<Rightarrow> int \<Rightarrow> int \<Rightarrow> string \<Rightarrow> (int \<times> string) option" where
  "read_field c lo hi s =
     (case read_char c s of
        None \<Rightarrow> None
      | Some r \<Rightarrow>
          (case read_digits 2 r of
             None \<Rightarrow> None
           | Some (v, r') \<Rightarrow> if lo \<le> v \<and> v \<le> hi then Some (v, r') else None))"

definition starts :: "char \<Rightarrow> string \<Rightarrow> bool" where
  "starts c s = (case s of [] \<Rightarrow> False | x # r \<Rightarrow> x = c)"

definition read_year :: "string \<Rightarrow> (int \<times> string) option" where
  "read_year s =
     (if starts CHR ''+'' s then read_digits 6 (tl s)
      else if starts CHR ''-'' s then
        (case read_digits 6 (tl s) of
           None \<Rightarrow> None
         | Some (y, r) \<Rightarrow> if y = 0 then None else Some (- y, r))
      else read_digits 4 s)"

definition read_date :: "string \<Rightarrow> ((int \<times> int \<times> int) \<times> string) option" where
  "read_date s =
     (case read_year s of
        None \<Rightarrow> None
      | Some (y, r1) \<Rightarrow>
          if \<not> starts CHR ''-'' r1 then Some ((y, 1, 1), r1)
          else
            (case read_field CHR ''-'' 1 12 r1 of
               None \<Rightarrow> None
             | Some (m, r2) \<Rightarrow>
                 if \<not> starts CHR ''-'' r2 then Some ((y, m, 1), r2)
                 else
                   (case read_field CHR ''-'' 1 31 r2 of
                      None \<Rightarrow> None
                    | Some (d, r3) \<Rightarrow> Some ((y, m, d), r3))))"

definition read_time :: "string \<Rightarrow> ((int \<times> int \<times> int \<times> int) \<times> string) option" where
  "read_time s =
     (case read_digits 2 s of
        None \<Rightarrow> None
      | Some (h, r1) \<Rightarrow>
          (case read_field CHR '':'' 0 59 r1 of
             None \<Rightarrow> None
           | Some (mi, r2) \<Rightarrow>
               if \<not> starts CHR '':'' r2 then Some ((h, mi, 0, 0), r2)
               else
                 (case read_field CHR '':'' 0 59 r2 of
                    None \<Rightarrow> None
                  | Some (sec, r3) \<Rightarrow>
                      if \<not> starts CHR ''.'' r3 then Some ((h, mi, sec, 0), r3)
                      else
                        (case read_digits 3 (tl r3) of
                           None \<Rightarrow> None
                         | Some (ms, r4) \<Rightarrow> Some ((h, mi, sec, ms), r4)))))"

datatype zone = LocalZone | UTCOffset int

definition read_zone :: "string \<Rightarrow> zone option" where
  "read_zone s =
     (if s = [] then Some LocalZone
      else if s = ''Z'' then Some (UTCOffset 0)
      else if starts CHR ''+'' s \<or> starts CHR ''-'' s then
        (case read_digits 2 (tl s) of
           None \<Rightarrow> None
         | Some (h, r1) \<Rightarrow>
             (case read_field CHR '':'' 0 59 r1 of
                None \<Rightarrow> None
              | Some (mi, r2) \<Rightarrow>
                  if r2 \<noteq> [] \<or> 23 < h then None
                  else
                    let off = h * msPerHour + mi * msPerMinute
                    in Some (UTCOffset (if starts CHR ''-'' s then - off else off))))
      else None)"

definition parse_iso :: "(int \<Rightarrow> bool \<Rightarrow> int) \<Rightarrow> string \<Rightarrow> int option" where
  "parse_iso tza s =
     (case read_date s of
        None \<Rightarrow> None
      | Some ((y, m, d), r) \<Rightarrow>
          if DaysInMonth y (m - 1) < d then None
          else
            let day = MakeDay y (m - 1) d
            in if r = [] then Some (MakeDate day 0)
               else
                 (case read_char CHR ''T'' r of
                    None \<Rightarrow> None
                  | Some r1 \<Rightarrow>
                      (case read_time r1 of
                         None \<Rightarrow> None
                       | Some ((h, mi, sec, ms), r2) \<Rightarrow>
                           if 24 < h \<or> (h = 24 \<and> (mi \<noteq> 0 \<or> sec \<noteq> 0 \<or> ms \<noteq> 0)) then None
                           else
                             (case read_zone r2 of
                                None \<Rightarrow> None
                              | Some z \<Rightarrow>
                                  let t = MakeDate day (MakeTime h mi sec ms)
                                  in Some (case z of
                                             UTCOffset off \<Rightarrow> t - off
                                           | LocalZone \<Rightarrow> t - tza t False)))))"

text \<open>
  What the engine and the device decide is a parameter: \<open>LocalTZA P t isUTC\<close> is the
  offset of the local time zone in milliseconds (ECMAScript's \<^verbatim>\<open>LocalTZA\<close>), and
  \<open>parse_fallback P\<close> is the engine's own reading of a string that is not of the
  format above (\<open>None\<close> when it does not recognise it). A string of the format that
  names a day its month does not have, such as \<^verbatim>\<open>2023-02-30\<close>, is left to the engine
  too, since engines differ on it. A time value out of the range of \<^verbatim>\<open>TimeClip\<close> is
  \<^verbatim>\<open>NaN\<close>.
\<close>

record platform =
  LocalTZA :: "int \<Rightarrow> bool \<Rightarrow> int"
  parse_fallback :: "string \<Rightarrow> int option"

definition Date_parse :: "platform \<Rightarrow> string \<Rightarrow> int option" where
  "Date_parse P s =
     (case parse_iso (LocalTZA P) s of
        Some t \<Rightarrow> TimeClip t
      | None \<Rightarrow> Option.bind (parse_fallback P s) TimeClip)"

definition LocalTime :: "platform \<Rightarrow> int \<Rightarrow> int" where
  "LocalTime P t = t + LocalTZA P t True"

subsection \<open>Numbers, strings and the getters\<close>

text \<open>
  The getters of an invalid date return \<^verbatim>\<open>NaN\<close>, and \<^verbatim>\<open>NaN + 1\<close> is \<^verbatim>\<open>NaN\<close>.
  \<open>ToString\<close> is \<^verbatim>\<open>String(n)\<close> and the conversion inside a template literal, for the
  integers the getters return. \<open>padStart\<close> is \<^verbatim>\<open>String.prototype.padStart\<close>.
\<close>

datatype number = NaN | Num int

definition getFullYear :: "platform \<Rightarrow> int option \<Rightarrow> number" where
  "getFullYear P d = (case d of None \<Rightarrow> NaN | Some t \<Rightarrow> Num (YearFromTime (LocalTime P t)))"

definition getMonth :: "platform \<Rightarrow> int option \<Rightarrow> number" where
  "getMonth P d = (case d of None \<Rightarrow> NaN | Some t \<Rightarrow> Num (MonthFromTime (LocalTime P t)))"

definition getDate :: "platform \<Rightarrow> int option \<Rightarrow> number" where
  "getDate P d = (case d of None \<Rightarrow> NaN | Some t \<Rightarrow> Num (DateFromTime (LocalTime P t)))"

fun add :: "number \<Rightarrow> number \<Rightarrow> number" where
  "add (Num a) (Num b) = Num (a + b)"
| "add _ _ = NaN"

definition digit_char :: "nat \<Rightarrow> char" where
  "digit_char n = ''0123456789'' ! n"

fun digits :: "nat \<Rightarrow> string" where
  "digits n =
     (if n < 10 then [digit_char n] else digits (n div 10) @ [digit_char (n mod 10)])"

declare digits.simps [simp del]

fun ToString :: "number \<Rightarrow> string" where
  "ToString NaN = ''NaN''"
| "ToString (Num i) = (if i < 0 then CHR ''-'' # digits (nat (- i)) else digits (nat i))"

definition padStart :: "string \<Rightarrow> nat \<Rightarrow> string \<Rightarrow> string" where
  "padStart s maxLength fillString =
     (if maxLength \<le> length s \<or> fillString = [] then s
      else
        let fillLen = maxLength - length s
        in take fillLen (concat (replicate fillLen fillString)) @ s)"

section \<open>formatDate and formatDateAndTime\<close>

text \<open>
  \<^verbatim>\<open>formatDate\<close> of \<^verbatim>\<open>PatientInfoScreen.tsx\<close>, with the platform as a parameter.
\<close>

definition formatDate :: "platform \<Rightarrow> string \<Rightarrow> string" where
  "formatDate P dateString =
     (let d = Date_parse P dateString;
          year = getFullYear P d;
          month = padStart (ToString (add (getMonth P d) (Num 1))) 2 ''0'';
          day = padStart (ToString (getDate P d)) 2 ''0''
      in ToString year @ ''-'' @ month @ ''-'' @ day)"



text \<open>
  A device whose zone has a constant offset of so many minutes from UTC, with an engine
  that recognises nothing but the ECMAScript format.
\<close>

definition fixed_offset :: "int \<Rightarrow> platform" where
  "fixed_offset minutes =
     \<lparr>LocalTZA = (\<lambda>t isUTC. minutes * msPerMinute), parse_fallback = (\<lambda>s. None)\<rparr>"

text \<open>
  \<open>YYYY_MM_DD s\<close> reads a string that is exactly four digits, a hyphen, two digits, a
  hyphen and two digits, and returns the three numbers; it is \<open>None\<close> for any other
  string.
\<close>

definition YYYY_MM_DD :: "string \<Rightarrow> (int \<times> int \<times> int) option" where
  "YYYY_MM_DD s =
     (case read_digits 4 s of
        None \<Rightarrow> None
      | Some (y, r1) \<Rightarrow>
          (case read_field CHR ''-'' 0 99 r1 of
             None \<Rightarrow> None
           | Some (m, r2) \<Rightarrow>
               (case read_field CHR ''-'' 0 99 r2 of
                  None \<Rightarrow> None
                | Some (d, r3) \<Rightarrow> if r3 = [] then Some (y, m, d) else None)))"

section \<open>Data model of the Patient Info screen\<close>

text \<open>
  The interfaces \<^verbatim>\<open>Diagnosis\<close> and \<^verbatim>\<open>PatientDetails\<close> of
  \<^verbatim>\<open>PatientInfoScreen.tsx\<close>. The items the service returns are typed
  \<^verbatim>\<open>any\<close>: they carry the three fields of a diagnosis and possibly more, so a
  server item is a value of the extensible record \<open>'a Diagnosis_scheme\<close>.
\<close>

record Diagnosis =
  history_id :: int
  date :: string
  time :: string

record PatientDetails =
  name :: string
  phone :: string
  email :: string
  age :: int
  sex :: string
  height :: real

text \<open>A rejected promise carries a JavaScript \<^verbatim>\<open>Error\<close>; the code reads its message.\<close>

datatype error = Error (message: string)

text \<open>
  What the component does to the world outside its own state: the alert dialog, the
  navigator, the animation driver and the two calls of \<^verbatim>\<open>PatientService\<close>.
\<close>

datatype effect =
    Alert_alert string string
  | navigation_goBack
  | Animated_timing_start real nat bool
  | getPatientData
  | getPatientHistory

text \<open>
  The five \<^verbatim>\<open>useState\<close> cells of the component. A state setter is modelled as an
  update of the field.
\<close>

record ViewState =
  diagnoses :: "Diagnosis list"
  patientDetails :: "PatientDetails option"
  loading :: bool
  refreshing :: bool
  pressedDiagnosisId :: "int option"

text \<open>
  The promise of \<^verbatim>\<open>getPatientData\<close> is created once, by the mount effect; the
  promises of \<^verbatim>\<open>getPatientHistory\<close> are counted, since a refresh may start one
  while another is in flight.
\<close>

datatype request = NotStarted | Pending | Settled

record Component = ViewState +
  effects :: "effect list"
  patientRequest :: request
  historyRequests :: nat

definition initial :: Component where
  "initial =
     \<lparr>diagnoses = [], patientDetails = None, loading = True, refreshing = False,
      pressedDiagnosisId = None, effects = [], patientRequest = NotStarted,
      historyRequests = 0\<rparr>"

text \<open>A patient record, for the examples.\<close>

definition example_patient :: PatientDetails where
  "example_patient =
     \<lparr>name = ''Ana'', phone = ''555'', email = ''ana@example.org'', age = 30, sex = ''F'',
      height = 165\<rparr>"

definition emit :: "effect \<Rightarrow> Component \<Rightarrow> Component" where
  "emit e w = w\<lparr>effects := effects w @ [e]\<rparr>"

section \<open>The two fetches\<close>

text \<open>
  An \<^verbatim>\<open>async\<close> function runs up to its \<^verbatim>\<open>await\<close> when it is called and
  resumes when the awaited promise settles. \<open>fetchPatientHistory\<close> is the first half
  (the call of the service), \<open>fetchPatientHistory_resume\<close> the second: the
  \<^verbatim>\<open>try\<close> body after the \<^verbatim>\<open>await\<close> on \<open>Inr\<close>, the \<^verbatim>\<open>catch\<close> block
  on \<open>Inl\<close>, and the \<^verbatim>\<open>finally\<close> block after either.
\<close>

definition fetchPatientHistory :: "Component \<Rightarrow> Component" where
  "fetchPatientHistory w =
     (emit getPatientHistory w)\<lparr>historyRequests := Suc (historyRequests w)\<rparr>"

definition fetchPatientHistory_resume ::
  "error + 'a Diagnosis_scheme list \<Rightarrow> Component \<Rightarrow> Component" where
  "fetchPatientHistory_resume r w =
     (let w' =
        (case r of
           Inr historyData \<Rightarrow>
             w\<lparr>diagnoses :=
                 map (\<lambda>item. \<lparr>history_id = history_id item, date = date item,
                               time = time item\<rparr>) historyData\<rparr>
         | Inl err \<Rightarrow> emit (Alert_alert ''Error'' (message err)) w)
      in w'\<lparr>refreshing := False\<rparr>)"

definition fetchPatientData :: "Component \<Rightarrow> Component" where
  "fetchPatientData w = (emit getPatientData w)\<lparr>patientRequest := Pending\<rparr>"

definition fetchPatientData_resume :: "error + PatientDetails \<Rightarrow> Component \<Rightarrow> Component" where
  "fetchPatientData_resume r w =
     (let w' =
        (case r of
           Inr data \<Rightarrow> w\<lparr>patientDetails := Some data\<rparr>
         | Inl err \<Rightarrow> emit navigation_goBack (emit (Alert_alert ''Error'' (message err)) w))
      in w'\<lparr>loading := False\<rparr>)"

text \<open>The body of the mount effect: both fetches are started, the record first.\<close>

definition useEffect_mount :: "Component \<Rightarrow> Component" where
  "useEffect_mount w = fetchPatientHistory (fetchPatientData w)"

definition onRefresh :: "Component \<Rightarrow> Component" where
  "onRefresh w = fetchPatientHistory (w\<lparr>refreshing := True\<rparr>)"

section \<open>Row press handlers\<close>

definition handleRowPressIn :: "int \<Rightarrow> Component \<Rightarrow> Component" where
  "handleRowPressIn ident w =
     emit (Animated_timing_start 0.98 100 True) (w\<lparr>pressedDiagnosisId := Some ident\<rparr>)"

definition handleRowPressOut :: "Component \<Rightarrow> Component" where
  "handleRowPressOut w =
     emit (Animated_timing_start 1 100 True) (w\<lparr>pressedDiagnosisId := None\<rparr>)"

definition handleRowPress :: "int \<Rightarrow> Component \<Rightarrow> Component" where
  "handleRowPress ident w = w\<lparr>pressedDiagnosisId := None\<rparr>"

section \<open>What the component renders\<close>

text \<open>
  The tree the component returns, cut down to what depends on the state: the activity
  indicator while \<open>loading\<close>; otherwise the patient block (nothing when there is no
  record), then either the text for an empty history or the list. The list carries one
  row per diagnosis and the refresh control; a row shows the formatted date and the time,
  and is scaled by the press animation when it is the pressed one.
\<close>

datatype row = Row (row_id: int) (row_scaled: bool) (row_date: string) (row_time: string)

datatype body = noDiagnosesText | FlatList "row list" bool

datatype view = ActivityIndicator | Content "PatientDetails option" body

definition renderDiagnosis :: "platform \<Rightarrow> int option \<Rightarrow> Diagnosis \<Rightarrow> row" where
  "renderDiagnosis P pressed item =
     Row (history_id item) (pressed = Some (history_id item))
       (formatDate P (date item)) (time item)"

definition render :: "platform \<Rightarrow> Component \<Rightarrow> view" where
  "render P w =
     (if loading w then ActivityIndicator
      else Content (patientDetails w)
        (if length (diagnoses w) = 0 then noDiagnosesText
         else FlatList (map (renderDiagnosis P (pressedDiagnosisId w)) (diagnoses w))
                (refreshing w)))"

text \<open>The refresh control and the rows a user can touch are those of the rendered tree.\<close>

fun has_RefreshControl :: "view \<Rightarrow> bool" where
  "has_RefreshControl (Content p (FlatList rows r)) = True"
| "has_RefreshControl v = False"

fun shows_noDiagnosesText :: "view \<Rightarrow> bool" where
  "shows_noDiagnosesText (Content p noDiagnosesText) = True"
| "shows_noDiagnosesText v = False"

fun rows_of :: "view \<Rightarrow> row list" where
  "rows_of (Content p (FlatList rows r)) = rows"
| "rows_of v = []"

section \<open>Events\<close>

text \<open>
  Everything runs on one thread, one event at a time: the mount effect, the settling of
  a promise of the service (with its outcome), and the touches of the user. An event
  that cannot happen in a state has no successor: a promise settles only while it is
  pending, and a control is touched only while it is rendered.
\<close>

datatype 'a event =
    Mount
  | PatientDataSettled "error + PatientDetails"
  | PatientHistorySettled "error + 'a Diagnosis_scheme list"
  | PullToRefresh
  | PressIn int
  | PressOut int
  | Press int

fun settles_patientData :: "'a event \<Rightarrow> bool" where
  "settles_patientData (PatientDataSettled r) = True"
| "settles_patientData e = False"

fun step :: "platform \<Rightarrow> Component \<Rightarrow> 'a event \<Rightarrow> Component option" where
  "step P w Mount =
     (if patientRequest w = NotStarted then Some (useEffect_mount w) else None)"
| "step P w (PatientDataSettled r) =
     (if patientRequest w = Pending
      then Some ((fetchPatientData_resume r w)\<lparr>patientRequest := Settled\<rparr>) else None)"
| "step P w (PatientHistorySettled r) =
     (if 0 < historyRequests w
      then Some ((fetchPatientHistory_resume r w)\<lparr>historyRequests := historyRequests w - 1\<rparr>)
      else None)"
| "step P w PullToRefresh =
     (if has_RefreshControl (render P w) then Some (onRefresh w) else None)"
| "step P w (PressIn i) =
     (if i \<in> set (map row_id (rows_of (render P w))) then Some (handleRowPressIn i w)
      else None)"
| "step P w (PressOut i) =
     (if i \<in> set (map row_id (rows_of (render P w))) then Some (handleRowPressOut w)
      else None)"
| "step P w (Press i) =
     (if i \<in> set (map row_id (rows_of (render P w))) then Some (handleRowPress i w)
      else None)"

fun run :: "platform \<Rightarrow> Component \<Rightarrow> 'a event list \<Rightarrow> Component option" where
  "run P w [] = Some w"
| "run P w (e # es) = (case step P w e of None \<Rightarrow> None | Some w' \<Rightarrow> run P w' es)"

section \<open>The calendar functions\<close>

subsection \<open>Floor division\<close>

lemma floor_div_bounds:
  fixes a b :: int
  assumes "0 < b"
  shows "b * (a div b) \<le> a" and "a - (b - 1) \<le> b * (a div b)"
proof -
  have e: "a = b * (a div b) + a mod b" by simp
  have "0 \<le> a mod b" "a mod b < b" using assms by simp_all
  then show "b * (a div b) \<le> a" "a - (b - 1) \<le> b * (a div b)" using e by linarith+
qed

lemma floor_div_step:
  fixes a b :: int
  assumes "0 < b"
  shows "(a + 1) div b = a div b + (if (a + 1) mod b = 0 then 1 else 0)"
proof -
  have e: "a = b * (a div b) + a mod b" by simp
  have r: "0 \<le> a mod b" "a mod b < b" using assms by simp_all
  show ?thesis
  proof (cases "a mod b = b - 1")
    case True
    have "a + 1 = b * (a div b) + (a mod b + 1)" using e by linarith
    also have "\<dots> = b * (a div b + 1) + 0" using True by (simp add: algebra_simps)
    finally have s: "a + 1 = b * (a div b + 1) + 0" .
    have "(a + 1) div b = a div b + 1"
      by (rule int_div_pos_eq [OF s]) (simp_all add: assms)
    moreover have "(a + 1) mod b = 0"
      by (rule int_mod_pos_eq [OF s]) (simp_all add: assms)
    ultimately show ?thesis by simp
  next
    case False
    then have lt: "a mod b + 1 < b" using r by linarith
    have nn: "0 \<le> a mod b + 1" using r by linarith
    have s: "a + 1 = b * (a div b) + (a mod b + 1)" using e by linarith
    have "(a + 1) div b = a div b"
      using s nn lt by (rule int_div_pos_eq)
    moreover have "(a + 1) mod b = a mod b + 1"
      using s nn lt by (rule int_mod_pos_eq)
    ultimately show ?thesis using r by simp
  qed
qed

lemma mod_shift: "(y - b * k) mod b = y mod b" for y b k :: int
proof -
  have "y - b * k = y + b * (- k)" by simp
  then show ?thesis by (metis mod_mult_self2)
qed

subsection \<open>Years\<close>

text \<open>A year is as long as \<open>DaysInYear\<close> says, and \<open>DayFromYear\<close> never decreases.\<close>

lemma DayFromYear_Suc: "DayFromYear (y + 1) = DayFromYear y + DaysInYear y"
proof -
  have s4: "(y + 1 - 1969) div 4 = (y - 1969) div 4 + (if y mod 4 = 0 then 1 else 0)"
    using floor_div_step [of 4 "y - 1969"] mod_shift [of y 4 492] by (simp add: algebra_simps)
  have s100: "(y + 1 - 1901) div 100 = (y - 1901) div 100 + (if y mod 100 = 0 then 1 else 0)"
    using floor_div_step [of 100 "y - 1901"] mod_shift [of y 100 19] by (simp add: algebra_simps)
  have s400: "(y + 1 - 1601) div 400 = (y - 1601) div 400 + (if y mod 400 = 0 then 1 else 0)"
    using floor_div_step [of 400 "y - 1601"] mod_shift [of y 400 4] by (simp add: algebra_simps)
  have m: "y mod 400 = 0 \<Longrightarrow> y mod 100 = 0" "y mod 100 = 0 \<Longrightarrow> y mod 4 = 0"
  proof -
    have "(100::int) dvd 400" "(4::int) dvd 100" by simp_all
    then have "400 dvd y \<Longrightarrow> 100 dvd y" "100 dvd y \<Longrightarrow> 4 dvd y"
      using dvd_trans by blast+
    then show "y mod 400 = 0 \<Longrightarrow> y mod 100 = 0" "y mod 100 = 0 \<Longrightarrow> y mod 4 = 0"
      by (simp_all add: mod_eq_0_iff_dvd)
  qed
  show ?thesis
    unfolding DayFromYear_def DaysInYear_def s4 s100 s400 using m by auto
qed

lemma DayFromYear_mono: "y \<le> z \<Longrightarrow> DayFromYear y \<le> DayFromYear z"
proof -
  have step: "DayFromYear y \<le> DayFromYear (y + 1)" for y
    unfolding DayFromYear_Suc DaysInYear_def by simp
  have "DayFromYear y \<le> DayFromYear (y + int n)" for n
  proof (induction n)
    case 0
    show ?case by simp
  next
    case (Suc n)
    have e: "y + int (Suc n) = y + int n + 1" by simp
    show ?case unfolding e using Suc step [of "y + int n"] by linarith
  qed
  from this [of "nat (z - y)"] show "y \<le> z \<Longrightarrow> DayFromYear y \<le> DayFromYear z" by simp
qed

text \<open>
  The day number of the first day of a year stays within two days of the mean: these
  bounds make the estimate of \<open>YearFromTime\<close> miss by one year at most.
\<close>

lemma DayFromYear_bounds:
  "400 * DayFromYear y \<le> 146097 * y - 287810501"
  "146097 * y - 287811596 \<le> 400 * DayFromYear y"
proof -
  define q4 where "q4 = (y - 1969) div 4"
  define q100 where "q100 = (y - 1901) div 100"
  define q400 where "q400 = (y - 1601) div 400"
  have b4: "4 * q4 \<le> y - 1969" "y - 1969 - 3 \<le> 4 * q4"
    unfolding q4_def using floor_div_bounds [of 4 "y - 1969"] by simp_all
  have b100: "100 * q100 \<le> y - 1901" "y - 1901 - 99 \<le> 100 * q100"
    unfolding q100_def using floor_div_bounds [of 100 "y - 1901"] by simp_all
  have b400: "400 * q400 \<le> y - 1601" "y - 1601 - 399 \<le> 400 * q400"
    unfolding q400_def using floor_div_bounds [of 400 "y - 1601"] by simp_all
  have D: "400 * DayFromYear y = 146000 * y - 287620000 + 400 * q4 - 400 * q100 + 400 * q400"
    by (simp add: DayFromYear_def q4_def q100_def q400_def algebra_simps)
  show "400 * DayFromYear y \<le> 146097 * y - 287810501"
    unfolding D using b4 b100 b400 by linarith
  show "146097 * y - 287811596 \<le> 400 * DayFromYear y"
    unfolding D using b4 b100 b400 by linarith
qed

lemma YearFromTime_bounds:
  "DayFromYear (YearFromTime t) \<le> Day t" "Day t < DayFromYear (YearFromTime t + 1)"
proof -
  define d where "d = Day t"
  define x where "x = (400 * d) div 146097"
  define y where "y = 1970 + x"
  have x: "146097 * x \<le> 400 * d" "400 * d - 146096 \<le> 146097 * x"
    unfolding x_def using floor_div_bounds [of 146097 "400 * d"] by simp_all
  have Y: "YearFromTime t =
      (if d < DayFromYear y then y - 1 else if DayFromYear (y + 1) \<le> d then y + 1 else y)"
    by (simp add: YearFromTime_def Let_def d_def x_def y_def)
  have lo: "DayFromYear (y - 1) \<le> d"
  proof -
    define z where "z = y - 1"
    have "z = x + 1969" by (simp add: z_def y_def)
    then have "DayFromYear z \<le> d" using DayFromYear_bounds(1) [of z] x by linarith
    then show ?thesis by (simp add: z_def)
  qed
  have hi: "d < DayFromYear (y + 1 + 1)"
  proof -
    define z where "z = y + 1 + 1"
    have "z = x + 1972" by (simp add: z_def y_def)
    then have "d < DayFromYear z" using DayFromYear_bounds(2) [of z] x by linarith
    then show ?thesis by (simp add: z_def)
  qed
  have "DayFromYear (YearFromTime t) \<le> d \<and> d < DayFromYear (YearFromTime t + 1)"
    unfolding Y using lo hi by auto
  then show "DayFromYear (YearFromTime t) \<le> Day t" "Day t < DayFromYear (YearFromTime t + 1)"
    unfolding d_def by simp_all
qed

text \<open>\<open>YearFromTime\<close> is the year ECMAScript asks for, and the only one.\<close>

lemma YearFromTime_le: "TimeFromYear (YearFromTime t) \<le> t"
proof -
  have "msPerDay * DayFromYear (YearFromTime t) \<le> msPerDay * Day t"
    using YearFromTime_bounds(1) [of t] by (simp add: msPerDay_def)
  also have "\<dots> \<le> t" using floor_div_bounds(1) [of msPerDay t] by (simp add: Day_def msPerDay_def)
  finally show ?thesis by (simp add: TimeFromYear_def)
qed

lemma YearFromTime_largest:
  assumes "TimeFromYear y \<le> t"
  shows "y \<le> YearFromTime t"
proof (rule ccontr)
  assume "\<not> y \<le> YearFromTime t"
  then have "YearFromTime t + 1 \<le> y" by simp
  then have "DayFromYear (YearFromTime t + 1) \<le> DayFromYear y" by (rule DayFromYear_mono)
  then have "Day t < DayFromYear y" using YearFromTime_bounds(2) [of t] by linarith
  then have "Day t + 1 \<le> DayFromYear y" by simp
  then have "msPerDay * (Day t + 1) \<le> msPerDay * DayFromYear y"
    by (simp add: msPerDay_def)
  moreover have "t < msPerDay * (Day t + 1)"
    using floor_div_bounds(2) [of msPerDay t] by (simp add: Day_def msPerDay_def algebra_simps)
  ultimately show False using assms by (simp add: TimeFromYear_def)
qed

lemma YearFromTime_unique:
  assumes "DayFromYear y \<le> Day t" "Day t < DayFromYear (y + 1)"
  shows "YearFromTime t = y"
proof (rule antisym)
  show "YearFromTime t \<le> y"
  proof (rule ccontr)
    assume "\<not> YearFromTime t \<le> y"
    then have "y + 1 \<le> YearFromTime t" by simp
    then have "DayFromYear (y + 1) \<le> DayFromYear (YearFromTime t)" by (rule DayFromYear_mono)
    then show False using assms(2) YearFromTime_bounds(1) [of t] by linarith
  qed
  show "y \<le> YearFromTime t"
  proof (rule ccontr)
    assume "\<not> y \<le> YearFromTime t"
    then have "YearFromTime t + 1 \<le> y" by simp
    then have "DayFromYear (YearFromTime t + 1) \<le> DayFromYear y" by (rule DayFromYear_mono)
    then show False using assms(1) YearFromTime_bounds(2) [of t] by linarith
  qed
qed

subsection \<open>Months and days\<close>

lemma DayWithinYear_range:
  "0 \<le> DayWithinYear t" "DayWithinYear t < 365 + InLeapYear t"
proof -
  show "0 \<le> DayWithinYear t"
    using YearFromTime_bounds(1) [of t] by (simp add: DayWithinYear_def)
  have "Day t < DayFromYear (YearFromTime t) + DaysInYear (YearFromTime t)"
    using YearFromTime_bounds(2) [of t] by (simp add: DayFromYear_Suc)
  moreover have "DaysInYear (YearFromTime t) = 365 + InLeapYear t"
    by (simp add: InLeapYear_def DaysInYear_def)
  ultimately show "DayWithinYear t < 365 + InLeapYear t"
    by (simp add: DayWithinYear_def)
qed

lemma InLeapYear_cases: "InLeapYear t = 0 \<or> InLeapYear t = 1"
  by (simp add: InLeapYear_def)

lemma MonthFromTime_range: "0 \<le> MonthFromTime t \<and> MonthFromTime t \<le> 11"
  by (simp add: MonthFromTime_def Let_def)

lemma DateFromTime_range: "1 \<le> DateFromTime t \<and> DateFromTime t \<le> 31"
  using DayWithinYear_range [of t] InLeapYear_cases [of t]
  unfolding DateFromTime_def MonthFromTime_def Let_def
  by (auto split: if_splits)

text \<open>
  ECMAScript's \<^verbatim>\<open>MakeDay\<close> asks for a time value whose year, month and date are the
  given year and month and 1: the day \<open>MakeDay\<close> computes is the day of such a time.
\<close>

lemma Day_of_day: "Day (msPerDay * D) = D"
  by (simp add: Day_def msPerDay_def)

lemma month_cases:
  "(0::int) \<le> k \<Longrightarrow> k < 12 \<Longrightarrow>
   k = 0 \<or> k = 1 \<or> k = 2 \<or> k = 3 \<or> k = 4 \<or> k = 5 \<or> k = 6 \<or> k = 7 \<or> k = 8 \<or> k = 9 \<or> k = 10 \<or> k = 11"
  by presburger

lemma leap_cases: "leap y = 0 \<or> leap y = 1"
  by (simp add: leap_def)

lemma DaysInYear_leap: "DaysInYear y = 365 + leap y"
  by (simp add: leap_def DaysInYear_def)

lemma MakeDay_first:
  fixes year month :: int
  defines "t \<equiv> msPerDay * MakeDay year month 1"
  shows "YearFromTime t = year + month div 12 \<and> MonthFromTime t = month mod 12
    \<and> DateFromTime t = 1"
proof -
  define ym where "ym = year + month div 12"
  define mn where "mn = month mod 12"
  define l where "l = leap ym"
  have mn: "mn = 0 \<or> mn = 1 \<or> mn = 2 \<or> mn = 3 \<or> mn = 4 \<or> mn = 5 \<or> mn = 6 \<or> mn = 7
      \<or> mn = 8 \<or> mn = 9 \<or> mn = 10 \<or> mn = 11"
    unfolding mn_def by (rule month_cases) simp_all
  have l: "l = 0 \<or> l = 1" unfolding l_def by (rule leap_cases)
  have D: "Day t = DayFromYear ym + monthStart l mn"
    by (simp add: t_def Day_of_day MakeDay_def Let_def ym_def mn_def l_def)
  have lb: "0 \<le> l" "l \<le> 1" using l by auto
  have r: "0 \<le> monthStart l mn" "monthStart l mn < 365 + l"
    using mn lb by (elim disjE; simp add: monthStart_def)+
  have Y: "YearFromTime t = ym"
  proof (rule YearFromTime_unique)
    show "DayFromYear ym \<le> Day t" using D r(1) by simp
    show "Day t < DayFromYear (ym + 1)"
      using D r(2) by (simp add: DayFromYear_Suc DaysInYear_leap l_def)
  qed
  have L: "InLeapYear t = l" by (simp add: InLeapYear_def Y l_def leap_def)
  have W: "DayWithinYear t = monthStart l mn" by (simp add: DayWithinYear_def Y D)
  have M: "MonthFromTime t = mn"
    unfolding MonthFromTime_def Let_def L W using mn lb by (elim disjE; simp add: monthStart_def)
  have "DateFromTime t = 1"
    unfolding DateFromTime_def Let_def M L W using mn lb by (elim disjE; simp add: monthStart_def)
  with Y M show ?thesis by (simp add: ym_def mn_def)
qed

section \<open>Decimal strings\<close>

lemma lt_10_cases:
  "(k::nat) < 10 \<Longrightarrow> k = 0 \<or> k = 1 \<or> k = 2 \<or> k = 3 \<or> k = 4 \<or> k = 5 \<or> k = 6 \<or> k = 7 \<or> k = 8 \<or> k = 9"
  by presburger

lemma digit_of_digit_char: "k < 10 \<Longrightarrow> digit_of (digit_char k) = Some k"
  using lt_10_cases [of k] by (auto simp: digit_of_def digit_char_def)

lemma digit_char_not_N: "k < 10 \<Longrightarrow> digit_char k \<noteq> CHR ''N''"
  using lt_10_cases [of k] by (auto simp: digit_char_def)

lemma digits_1: "n < 10 \<Longrightarrow> digits n = [digit_char n]"
  by (simp add: digits.simps)

lemma digits_2: "10 \<le> n \<Longrightarrow> n < 100 \<Longrightarrow> digits n = [digit_char (n div 10), digit_char (n mod 10)]"
  by (simp add: digits.simps [of n] digits_1)

lemma digits_3:
  "100 \<le> n \<Longrightarrow> n < 1000 \<Longrightarrow>
   digits n = [digit_char (n div 100), digit_char (n div 10 mod 10), digit_char (n mod 10)]"
  by (simp add: digits.simps [of n] digits_2 div_mult2_eq [symmetric])

lemma digits_4:
  "1000 \<le> n \<Longrightarrow> n < 10000 \<Longrightarrow>
   digits n = [digit_char (n div 1000), digit_char (n div 100 mod 10),
               digit_char (n div 10 mod 10), digit_char (n mod 10)]"
  by (simp add: digits.simps [of n] digits_3 div_mult2_eq [symmetric])

lemma hd_digits: "digits n \<noteq> [] \<and> hd (digits n) \<noteq> CHR ''N''"
proof (induction n rule: digits.induct)
  case (1 n)
  show ?case
  proof (cases "n < 10")
    case True
    then show ?thesis by (simp add: digits_1 digit_char_not_N)
  next
    case False
    with 1 show ?thesis by (simp add: digits.simps [of n])
  qed
qed

lemma padStart_2:
  "n < 100 \<Longrightarrow> padStart (digits n) 2 ''0'' = [digit_char (n div 10), digit_char (n mod 10)]"
proof (cases "n < 10")
  case True
  then show ?thesis by (simp add: padStart_def digits_1 digit_char_def)
next
  case False
  assume "n < 100"
  with False show ?thesis by (simp add: padStart_def digits_2)
qed

lemma four_digits:
  fixes n :: nat
  shows "1000 * (n div 1000) + 100 * (n div 100 mod 10) + 10 * (n div 10 mod 10) + n mod 10 = n"
proof -
  have a: "n = 10 * (n div 10) + n mod 10" by simp
  have b: "n div 10 = 10 * (n div 100) + n div 10 mod 10"
    using div_mult2_eq [of n 10 10] by simp
  have c: "n div 100 = 10 * (n div 1000) + n div 100 mod 10"
    using div_mult2_eq [of n 100 10] by simp
  show ?thesis using a b c by linarith
qed

lemma YYYY_MM_DD_digits:
  assumes "a < 10" "b < 10" "c < 10" "d < 10" "e < 10" "f < 10" "g < 10" "h < 10"
  shows "YYYY_MM_DD ([digit_char a, digit_char b, digit_char c, digit_char d] @ ''-'' @
            [digit_char e, digit_char f] @ ''-'' @ [digit_char g, digit_char h]) =
         Some (int (1000 * a + 100 * b + 10 * c + d), int (10 * e + f), int (10 * g + h))"
  using assms
  by (simp add: YYYY_MM_DD_def read_digits_def read_field_def read_char_def digit_of_digit_char)

section \<open>The result of formatDate\<close>

lemma formatDate_Some:
  assumes "Date_parse P s = Some t"
  defines "y \<equiv> YearFromTime (LocalTime P t)"
    and "m \<equiv> nat (MonthFromTime (LocalTime P t) + 1)"
    and "d \<equiv> nat (DateFromTime (LocalTime P t))"
  shows "formatDate P s =
    ToString (Num y) @ ''-'' @ [digit_char (m div 10), digit_char (m mod 10)] @ ''-'' @
      [digit_char (d div 10), digit_char (d mod 10)]"
proof -
  have m: "0 \<le> MonthFromTime (LocalTime P t) + 1" "m < 100"
    using MonthFromTime_range [of "LocalTime P t"] unfolding m_def by linarith+
  have d: "0 \<le> DateFromTime (LocalTime P t)" "d < 100"
    using DateFromTime_range [of "LocalTime P t"] unfolding d_def by linarith+
  have "ToString (Num (MonthFromTime (LocalTime P t) + 1)) = digits m"
    using m(1) by (simp add: m_def)
  moreover have "ToString (Num (DateFromTime (LocalTime P t))) = digits d"
    using d(1) by (simp add: d_def)
  ultimately show ?thesis
    using padStart_2 [OF m(2)] padStart_2 [OF d(2)]
    by (simp add: formatDate_def assms(1) getFullYear_def getMonth_def getDate_def y_def
        del: ToString.simps)
qed

lemma formatDate_None:
  assumes "Date_parse P s = None"
  shows "formatDate P s = ''NaN-NaN-NaN''"
  by (simp add: formatDate_def assms getFullYear_def getMonth_def getDate_def padStart_def)








section \<open>Loading\<close>

text \<open>
  An event changes \<open>loading\<close> only by settling the promise of the patient record, and
  along every run \<open>loading\<close> holds exactly while that promise has not settled.
\<close>

lemma step_loading:
  assumes "step P w ev = Some w'"
  shows "loading w' = (loading w \<and> \<not> settles_patientData ev)"
  using assms
  by (cases ev)
    (auto simp: useEffect_mount_def fetchPatientData_def fetchPatientData_resume_def
      fetchPatientHistory_def fetchPatientHistory_resume_def onRefresh_def
      handleRowPressIn_def handleRowPressOut_def handleRowPress_def emit_def
      split: if_splits sum.splits)

lemma step_patientRequest:
  assumes "step P w ev = Some w'"
  shows "patientRequest w' =
    (if settles_patientData ev then Settled
     else if ev = Mount then Pending else patientRequest w)"
    and "ev = Mount \<longrightarrow> patientRequest w = NotStarted"
  using assms
  by (cases ev;
      auto simp: useEffect_mount_def fetchPatientData_def fetchPatientData_resume_def
        fetchPatientHistory_def fetchPatientHistory_resume_def onRefresh_def
        handleRowPressIn_def handleRowPressOut_def handleRowPress_def emit_def
      split: if_splits sum.splits)+

lemma step_invariant:
  assumes "step P w ev = Some w'" and "loading w = (patientRequest w \<noteq> Settled)"
  shows "loading w' = (patientRequest w' \<noteq> Settled)"
  using step_loading [OF assms(1)] step_patientRequest [OF assms(1)] assms(2)
  by (auto split: if_splits)

lemma run_invariant:
  assumes "run P w evs = Some w'" and "loading w = (patientRequest w \<noteq> Settled)"
  shows "loading w' = (patientRequest w' \<noteq> Settled)"
  using assms
proof (induction evs arbitrary: w)
  case Nil
  then show ?case by simp
next
  case (Cons e es)
  from Cons.prems(1) obtain w1 where s: "step P w e = Some w1" and r: "run P w1 es = Some w'"
    by (auto split: option.splits)
  from step_invariant [OF s Cons.prems(2)] have "loading w1 = (patientRequest w1 \<noteq> Settled)" .
  with r show ?case by (rule Cons.IH)
qed

section \<open>The diagnosis-list fetch\<close>

text \<open>
  C1. When the diagnosis-list fetch succeeds, whatever \<open>diagnoses\<close> held before, the
  field becomes the returned sequence, each item cut down to its three fields
  \<open>history_id\<close>, \<open>date\<close> and \<open>time\<close>, in the order of the server; its length is the
  length of the returned sequence; \<open>refreshing\<close> is false; nothing else of the view
  state changes and nothing is emitted.
\<close>

theorem fetchPatientHistory_success:
  fixes historyData :: "'a Diagnosis_scheme list" and w :: Component
  defines "w' \<equiv> fetchPatientHistory_resume (Inr historyData) w"
  shows "diagnoses w' = map Diagnosis.truncate historyData
    \<and> length (diagnoses w') = length historyData
    \<and> map history_id (diagnoses w') = map history_id historyData
    \<and> map date (diagnoses w') = map date historyData
    \<and> map time (diagnoses w') = map time historyData
    \<and> refreshing w' = False
    \<and> patientDetails w' = patientDetails w \<and> loading w' = loading w
    \<and> pressedDiagnosisId w' = pressedDiagnosisId w \<and> effects w' = effects w"
  unfolding w'_def
  by (simp add: fetchPatientHistory_resume_def Diagnosis.truncate_def comp_def)

text \<open>
  C2. When the diagnosis-list fetch fails, an alert titled "Error" with the message of
  the failure is shown, \<open>refreshing\<close> becomes false, and \<open>diagnoses\<close> keeps the value
  it had, whatever it was; no other field of the view state changes.
\<close>

theorem fetchPatientHistory_failure:
  "(let w' = fetchPatientHistory_resume (Inl err :: error + 'a Diagnosis_scheme list) w
    in effects w' = effects w @ [Alert_alert ''Error'' (message err)]
     \<and> refreshing w' = False
     \<and> diagnoses w' = diagnoses w
     \<and> patientDetails w' = patientDetails w \<and> loading w' = loading w
     \<and> pressedDiagnosisId w' = pressedDiagnosisId w)"
  by (simp add: fetchPatientHistory_resume_def emit_def)

section \<open>The patient-record fetch\<close>

text \<open>
  C3. When the patient-record fetch fails, \<open>loading\<close> becomes false, an alert with the
  message of the failure is shown and the navigator is told to go back, once. When it
  succeeds, the record is stored, \<open>loading\<close> becomes false, and nothing is emitted: no
  alert and no navigation.
\<close>

theorem fetchPatientData_outcomes:
  "(let w' = fetchPatientData_resume (Inl err) w
    in loading w' = False
     \<and> effects w' = effects w @ [Alert_alert ''Error'' (message err), navigation_goBack]
     \<and> count_list (effects w') navigation_goBack = count_list (effects w) navigation_goBack + 1
     \<and> patientDetails w' = patientDetails w)
   \<and> (let w' = fetchPatientData_resume (Inr data) w
      in patientDetails w' = Some data
       \<and> loading w' = False
       \<and> effects w' = effects w
       \<and> count_list (effects w') navigation_goBack = count_list (effects w) navigation_goBack)"
  by (simp add: fetchPatientData_resume_def emit_def)

section \<open>Formatting dates\<close>

text \<open>
  C4 (as amended). For every string that \<^verbatim>\<open>new Date\<close> reads as a valid date, so for
  every valid ISO date string, \<open>formatDate\<close> returns the local year in decimal, a
  hyphen, the local month in two digits, a hyphen and the local day of the month in two
  digits; the month is between 1 and 12 and the day between 1 and 31. When the local
  year is between 1000 and 9999 the result is exactly of the shape \<^verbatim>\<open>YYYY-MM-DD\<close> and
  reads back as that year, month and day.
\<close>

theorem formatDate_valid:
  assumes "Date_parse P dateString = Some t"
  defines "y \<equiv> YearFromTime (LocalTime P t)"
    and "m \<equiv> MonthFromTime (LocalTime P t) + 1"
    and "d \<equiv> DateFromTime (LocalTime P t)"
  shows "formatDate P dateString =
      ToString (Num y) @ ''-'' @ [digit_char (nat m div 10), digit_char (nat m mod 10)] @ ''-'' @
        [digit_char (nat d div 10), digit_char (nat d mod 10)]
    \<and> 1 \<le> m \<and> m \<le> 12 \<and> 1 \<le> d \<and> d \<le> 31
    \<and> (1000 \<le> y \<and> y \<le> 9999 \<longrightarrow> YYYY_MM_DD (formatDate P dateString) = Some (y, m, d))"
proof -
  have F: "formatDate P dateString =
      ToString (Num y) @ ''-'' @ [digit_char (nat m div 10), digit_char (nat m mod 10)] @ ''-'' @
        [digit_char (nat d div 10), digit_char (nat d mod 10)]"
    unfolding y_def m_def d_def by (rule formatDate_Some [OF assms(1)])
  have m: "1 \<le> m" "m \<le> 12"
    using MonthFromTime_range [of "LocalTime P t"] by (simp_all add: m_def)
  have d: "1 \<le> d" "d \<le> 31"
    using DateFromTime_range [of "LocalTime P t"] by (simp_all add: d_def)
  have R: "YYYY_MM_DD (formatDate P dateString) = Some (y, m, d)" if y: "1000 \<le> y" "y \<le> 9999"
  proof -
    define n where "n = nat y"
    have n: "1000 \<le> n" "n < 10000" "y = int n" using y by (simp_all add: n_def)
    have S: "ToString (Num y) =
        [digit_char (n div 1000), digit_char (n div 100 mod 10),
         digit_char (n div 10 mod 10), digit_char (n mod 10)]"
      using y digits_4 [OF n(1) n(2)] by (simp add: n_def)
    have md: "nat m div 10 < 10" "nat d div 10 < 10" using m d by simp_all
    have "YYYY_MM_DD (formatDate P dateString) =
        Some (int (1000 * (n div 1000) + 100 * (n div 100 mod 10) + 10 * (n div 10 mod 10) + n mod 10),
              int (10 * (nat m div 10) + nat m mod 10), int (10 * (nat d div 10) + nat d mod 10))"
      unfolding F S using n(2) md by (intro YYYY_MM_DD_digits) simp_all
    also have "\<dots> = Some (y, m, d)"
      using m(1) d(1) by (simp add: four_digits n(3))
    finally show ?thesis .
  qed
  show ?thesis using F m d R by blast
qed

theorem formatDate_valid_witness:
  "Date_parse (fixed_offset 0) ''2024-03-05'' = Some 1709596800000
   \<and> formatDate (fixed_offset 0) ''2024-03-05'' = ''2024-03-05''
   \<and> YYYY_MM_DD (formatDate (fixed_offset 0) ''2024-03-05'') = Some (2024, 3, 5)"
proof -
  have h: "Date_parse (fixed_offset 0) ''2024-03-05'' = Some 1709596800000"
    by code_simp
  have y: "YearFromTime (LocalTime (fixed_offset 0) 1709596800000) = 2024"
    by code_simp
  have m: "MonthFromTime (LocalTime (fixed_offset 0) 1709596800000) = 2"
    by code_simp
  have d: "DateFromTime (LocalTime (fixed_offset 0) 1709596800000) = 5"
    by code_simp
  note v = formatDate_valid [OF h, unfolded y m d]
  have f: "formatDate (fixed_offset 0) ''2024-03-05'' = ''2024-03-05''"
    using v [THEN conjunct1] by (simp add: digit_char_def digits.simps)
  have r: "YYYY_MM_DD (formatDate (fixed_offset 0) ''2024-03-05'') = Some (2024, 3, 5)"
    using v [THEN conjunct2, THEN conjunct2, THEN conjunct2, THEN conjunct2, THEN conjunct2]
    by simp
  show ?thesis using h f r by blast
qed

text \<open>
  The year is not padded. \<^verbatim>\<open>0999-06-15\<close> is a valid ISO date string, and on a device
  in UTC its formatted date has nine characters; one hour east of Greenwich the last half
  hour of the year 9999 is in the local year 10000, and the formatted date has eleven.
  Neither has the shape \<^verbatim>\<open>YYYY-MM-DD\<close>.
\<close>

theorem formatDate_year_not_four_digits:
  "Date_parse (fixed_offset 0) ''0999-06-15'' = Some (- 30627504000000)
   \<and> formatDate (fixed_offset 0) ''0999-06-15'' = ''999-06-15''
   \<and> YYYY_MM_DD (formatDate (fixed_offset 0) ''0999-06-15'') = None
   \<and> Date_parse (fixed_offset 60) ''9999-12-31T23:30:00Z'' = Some 253402299000000
   \<and> formatDate (fixed_offset 60) ''9999-12-31T23:30:00Z'' = ''10000-01-01''
   \<and> YYYY_MM_DD (formatDate (fixed_offset 60) ''9999-12-31T23:30:00Z'') = None"
proof -
  have a: "Date_parse (fixed_offset 0) ''0999-06-15'' = Some (- 30627504000000)"
    by code_simp
  have "YearFromTime (LocalTime (fixed_offset 0) (- 30627504000000)) = 999"
    "MonthFromTime (LocalTime (fixed_offset 0) (- 30627504000000)) = 5"
    "DateFromTime (LocalTime (fixed_offset 0) (- 30627504000000)) = 15"
    by code_simp+
  then have b: "formatDate (fixed_offset 0) ''0999-06-15'' = ''999-06-15''"
    unfolding formatDate_Some [OF a] by (simp add: digit_char_def digits.simps)
  have c: "YYYY_MM_DD ''999-06-15'' = None"
    by code_simp
  have d: "Date_parse (fixed_offset 60) ''9999-12-31T23:30:00Z'' = Some 253402299000000"
    by code_simp
  have "YearFromTime (LocalTime (fixed_offset 60) 253402299000000) = 10000"
    "MonthFromTime (LocalTime (fixed_offset 60) 253402299000000) = 0"
    "DateFromTime (LocalTime (fixed_offset 60) 253402299000000) = 1"
    by code_simp+
  then have e: "formatDate (fixed_offset 60) ''9999-12-31T23:30:00Z'' = ''10000-01-01''"
    unfolding formatDate_Some [OF d] by (simp add: digit_char_def digits.simps)
  have f: "YYYY_MM_DD ''10000-01-01'' = None"
    by code_simp
  show ?thesis using a b c d e f by simp
qed




section \<open>Loading and the patient record\<close>

text \<open>
  C6. \<open>loading\<close> is true in the initial state. In every state reached from it by a
  run of events, \<open>loading\<close> is true exactly when the promise of the patient record has
  not settled yet, and the next event makes \<open>loading\<close> false exactly when it settles
  that promise, with either outcome; every other event, the settling of a
  diagnosis-list fetch among them, leaves \<open>loading\<close> as it is.
\<close>

theorem loading_until_patientData_settles:
  fixes evs :: "'a event list"
  assumes "run P initial evs = Some w"
  shows "loading initial
    \<and> loading w = (patientRequest w \<noteq> Settled)
    \<and> (\<forall>ev :: 'a event. \<forall>w'. step P w ev = Some w' \<longrightarrow>
          loading w' = (loading w \<and> \<not> settles_patientData ev))"
proof -
  have i: "loading initial = (patientRequest initial \<noteq> Settled)" by (simp add: initial_def)
  have "loading w = (patientRequest w \<noteq> Settled)" by (rule run_invariant [OF assms i])
  moreover have "loading initial" by (simp add: initial_def)
  ultimately show ?thesis using step_loading by blast
qed

theorem loading_until_patientData_settles_witness:
  "run (fixed_offset 0) initial
      [Mount, PatientHistorySettled (Inr []), PatientDataSettled (Inl (Error ''timeout'')) :: unit event]
     \<noteq> None
   \<and> loading (the (run (fixed_offset 0) initial [Mount :: unit event]))
   \<and> loading (the (run (fixed_offset 0) initial
        [Mount, PatientHistorySettled (Inr []) :: unit event]))
   \<and> \<not> loading (the (run (fixed_offset 0) initial
        [Mount, PatientHistorySettled (Inr []), PatientDataSettled (Inl (Error ''timeout'')) :: unit event]))"
proof -
  define es1 where "es1 = [Mount :: unit event]"
  define es2 where "es2 = [Mount, PatientHistorySettled (Inr []) :: unit event]"
  define es3 where "es3 =
    [Mount, PatientHistorySettled (Inr []), PatientDataSettled (Inl (Error ''timeout'')) :: unit event]"
  have e: "\<exists>w. run (fixed_offset 0) initial es1 = Some w \<and> patientRequest w = Pending"
    "\<exists>w. run (fixed_offset 0) initial es2 = Some w \<and> patientRequest w = Pending"
    "\<exists>w. run (fixed_offset 0) initial es3 = Some w \<and> patientRequest w = Settled"
    by (simp_all add: es1_def es2_def es3_def initial_def useEffect_mount_def fetchPatientData_def
        fetchPatientData_resume_def fetchPatientHistory_def fetchPatientHistory_resume_def emit_def)
  from e(1) obtain w1 where w1: "run (fixed_offset 0) initial es1 = Some w1"
    "patientRequest w1 = Pending" by blast
  from e(2) obtain w2 where w2: "run (fixed_offset 0) initial es2 = Some w2"
    "patientRequest w2 = Pending" by blast
  from e(3) obtain w3 where w3: "run (fixed_offset 0) initial es3 = Some w3"
    "patientRequest w3 = Settled" by blast
  have "loading w1" "loading w2" "\<not> loading w3"
    using loading_until_patientData_settles [OF w1(1)]
      loading_until_patientData_settles [OF w2(1)]
      loading_until_patientData_settles [OF w3(1)] w1(2) w2(2) w3(2)
    by simp_all
  then show ?thesis
    using w1(1) w2(1) w3(1) unfolding es1_def es2_def es3_def by simp
qed

section \<open>Refresh\<close>

text \<open>
  C7. \<open>onRefresh\<close> sets \<open>refreshing\<close> and calls the diagnosis-list service, and nothing
  else: the patient-record service is not called and the promise of the record is not
  touched. When that fetch settles, with either outcome, the patient record, \<open>loading\<close>
  and the pressed row are still what they were before the refresh; only \<open>refreshing\<close>
  and \<open>diagnoses\<close> may have changed.
\<close>

theorem onRefresh_frame:
  "(let w1 = onRefresh w
    in refreshing w1 = True
     \<and> effects w1 = effects w @ [getPatientHistory]
     \<and> historyRequests w1 = Suc (historyRequests w)
     \<and> patientRequest w1 = patientRequest w
     \<and> diagnoses w1 = diagnoses w
     \<and> patientDetails w1 = patientDetails w \<and> loading w1 = loading w
     \<and> pressedDiagnosisId w1 = pressedDiagnosisId w)
   \<and> (let w2 = fetchPatientHistory_resume (r :: error + 'a Diagnosis_scheme list) (onRefresh w)
      in patientDetails w2 = patientDetails w \<and> loading w2 = loading w
       \<and> pressedDiagnosisId w2 = pressedDiagnosisId w
       \<and> patientRequest w2 = patientRequest w
       \<and> count_list (effects w2) getPatientData = count_list (effects w) getPatientData
       \<and> refreshing w2 = False)"
  by (cases r)
    (simp_all add: onRefresh_def fetchPatientHistory_def fetchPatientHistory_resume_def emit_def)

section \<open>Row presses\<close>

text \<open>
  C8. Pressing in on the row with id \<open>x\<close> sets the pressed row to \<open>x\<close>; pressing out,
  and a press on any row, set it to none. None of the three touches any other field of
  the view state, calls the service or the navigator: press-in and press-out start the
  press animation, press emits nothing.
\<close>

theorem row_press_handlers:
  "(let w' = handleRowPressIn x w
    in pressedDiagnosisId w' = Some x
     \<and> effects w' = effects w @ [Animated_timing_start 0.98 100 True]
     \<and> diagnoses w' = diagnoses w \<and> patientDetails w' = patientDetails w
     \<and> loading w' = loading w \<and> refreshing w' = refreshing w
     \<and> patientRequest w' = patientRequest w \<and> historyRequests w' = historyRequests w)
   \<and> (let w' = handleRowPressOut w
      in pressedDiagnosisId w' = None
       \<and> effects w' = effects w @ [Animated_timing_start 1 100 True]
       \<and> diagnoses w' = diagnoses w \<and> patientDetails w' = patientDetails w
       \<and> loading w' = loading w \<and> refreshing w' = refreshing w
       \<and> patientRequest w' = patientRequest w \<and> historyRequests w' = historyRequests w)
   \<and> (let w' = handleRowPress x w
      in pressedDiagnosisId w' = None
       \<and> effects w' = effects w
       \<and> diagnoses w' = diagnoses w \<and> patientDetails w' = patientDetails w
       \<and> loading w' = loading w \<and> refreshing w' = refreshing w
       \<and> patientRequest w' = patientRequest w \<and> historyRequests w' = historyRequests w)"
  by (simp add: handleRowPressIn_def handleRowPressOut_def handleRowPress_def emit_def)

section \<open>Strings that are not dates\<close>

text \<open>
  C9. \<open>formatDate\<close> returns a string for every input; no step of it can throw. When
  the input is not read as a date, the three calendar fields are \<^verbatim>\<open>NaN\<close> and the
  result is the string \<^verbatim>\<open>NaN-NaN-NaN\<close>; and that string is the result for such inputs
  only.
\<close>

theorem formatDate_total:
  "(Date_parse P dateString = None \<longrightarrow>
      getFullYear P (Date_parse P dateString) = NaN
    \<and> getMonth P (Date_parse P dateString) = NaN
    \<and> getDate P (Date_parse P dateString) = NaN
    \<and> formatDate P dateString = ''NaN-NaN-NaN'')
   \<and> (formatDate P dateString = ''NaN-NaN-NaN'' \<longrightarrow> Date_parse P dateString = None)"
proof -
  have "formatDate P dateString \<noteq> ''NaN-NaN-NaN''" if "Date_parse P dateString = Some t" for t
  proof -
    define y where "y = YearFromTime (LocalTime P t)"
    have "hd (ToString (Num y)) \<noteq> CHR ''N'' \<and> ToString (Num y) \<noteq> []"
      using hd_digits [of "nat y"] hd_digits [of "nat (- y)"] by simp
    then have "hd (formatDate P dateString) \<noteq> CHR ''N''"
      unfolding formatDate_Some [OF that] y_def [symmetric] by (simp del: ToString.simps)
    then show ?thesis by auto
  qed
  then have "formatDate P dateString = ''NaN-NaN-NaN'' \<longrightarrow> Date_parse P dateString = None"
    by (cases "Date_parse P dateString") auto
  then show ?thesis
    by (simp add: formatDate_None getFullYear_def getMonth_def getDate_def)
qed

theorem formatDate_total_witness:
  "Date_parse (fixed_offset 0) ''not a date'' = None
   \<and> formatDate (fixed_offset 0) ''not a date'' = ''NaN-NaN-NaN''"
proof -
  have h: "Date_parse (fixed_offset 0) ''not a date'' = None" by code_simp
  show ?thesis using formatDate_total [of "fixed_offset 0" "''not a date''"] h by simp
qed

section \<open>The empty history\<close>

text \<open>
  C10 (as amended). While \<open>loading\<close> is true the component renders the activity
  indicator and nothing else. When \<open>loading\<close> is false and \<open>diagnoses\<close> is empty it
  renders the text for an empty history, without the list and its refresh control. The
  refresh control is rendered, and a pull to refresh is possible, exactly when
  \<open>loading\<close> is false and \<open>diagnoses\<close> is not empty.
\<close>

theorem render_empty_state:
  "(loading w \<longrightarrow> render P w = ActivityIndicator)
   \<and> (\<not> loading w \<and> diagnoses w = [] \<longrightarrow>
        render P w = Content (patientDetails w) noDiagnosesText)
   \<and> has_RefreshControl (render P w) = (\<not> loading w \<and> diagnoses w \<noteq> [])
   \<and> (step P w (PullToRefresh :: 'a event) \<noteq> None) = (\<not> loading w \<and> diagnoses w \<noteq> [])"
  by (simp add: render_def)

theorem render_empty_state_witness:
  "render (fixed_offset 0)
     (the (run (fixed_offset 0) initial
        [Mount, PatientHistorySettled (Inr []), PatientDataSettled (Inr example_patient) :: unit event]))
     = Content (Some example_patient) noDiagnosesText
   \<and> step (fixed_offset 0)
     (the (run (fixed_offset 0) initial
        [Mount, PatientHistorySettled (Inr []), PatientDataSettled (Inr example_patient) :: unit event]))
     (PullToRefresh :: unit event) = None"
proof -
  define es where
    "es = [Mount, PatientHistorySettled (Inr []), PatientDataSettled (Inr example_patient) :: unit event]"
  have "\<exists>w. run (fixed_offset 0) initial es = Some w \<and> \<not> loading w \<and> diagnoses w = []
      \<and> patientDetails w = Some example_patient"
    by (simp add: es_def initial_def useEffect_mount_def fetchPatientData_def
        fetchPatientData_resume_def fetchPatientHistory_def fetchPatientHistory_resume_def
        emit_def)
  then obtain w where w: "run (fixed_offset 0) initial es = Some w" "\<not> loading w"
    "diagnoses w = []" "patientDetails w = Some example_patient" by blast
  have "render (fixed_offset 0) w = Content (Some example_patient) noDiagnosesText
      \<and> step (fixed_offset 0) w (PullToRefresh :: unit event) = None"
    using render_empty_state [of w "fixed_offset 0", where ?'a = unit] w(2,3,4) by simp
  then show ?thesis using w(1) unfolding es_def by simp
qed

text \<open>
  In the initial state \<open>diagnoses\<close> is empty and the component renders the activity
  indicator, not the text for an empty history.
\<close>

theorem render_while_loading:
  "diagnoses initial = []
   \<and> render (fixed_offset 0) initial = ActivityIndicator
   \<and> \<not> shows_noDiagnosesText (render (fixed_offset 0) initial)"
  by (simp add: initial_def render_def)

end
